theory Spec2Isabelle
  imports Complex_Main "HOL-Library.Sublist" "HOL-Library.AList"
begin

section \<open>Python values used by the engine\<close>

text \<open>
  The exceptions that the modelled library calls can raise.  \<open>ShutilError\<close> is
  \<open>shutil.Error\<close>; \<open>NameError\<close> is raised by the interpreter when a global name is
  not bound in the module; \<open>SqliteError\<close> is \<open>sqlite3.Error\<close>.
\<close>

datatype exn =
    FileNotFoundError
  | FileExistsError
  | NotADirectoryError
  | IsADirectoryError
  | SameFileError
  | ShutilError
  | ValueError
  | NameError
  | SqliteError

section \<open>posixpath\<close>

text \<open>\<open>s.split('/')\<close>: one piece more than there are separators, empty pieces kept.\<close>

fun split_sep :: "string \<Rightarrow> string list" where
  "split_sep [] = [[]]"
| "split_sep (c # cs) =
     (if c = CHR ''/'' then [] # split_sep cs
      else (case split_sep cs of
              [] \<Rightarrow> [[c]]
            | w # ws \<Rightarrow> (c # w) # ws))"

text \<open>\<open>'/'.join(comps)\<close>.\<close>

fun join_sep :: "string list \<Rightarrow> string" where
  "join_sep [] = []"
| "join_sep [c] = c"
| "join_sep (c # d # cs) = c @ ''/'' @ join_sep (d # cs)"

text \<open>\<open>os.path.basename(p)\<close>: everything after the last separator.\<close>

definition basename :: "string \<Rightarrow> string" where
  "basename p = rev (takeWhile (\<lambda>c. c \<noteq> CHR ''/'') (rev p))"

text \<open>
  \<open>os.path.dirname(p)\<close>: everything up to and including the last separator, with
  trailing separators stripped unless the head consists of separators only.
\<close>

definition dirname :: "string \<Rightarrow> string" where
  "dirname p =
     (let head = rev (dropWhile (\<lambda>c. c \<noteq> CHR ''/'') (rev p))
      in if head \<noteq> [] \<and> head \<noteq> replicate (length head) (CHR ''/'')
         then rev (dropWhile (\<lambda>c. c = CHR ''/'') (rev head))
         else head)"

text \<open>\<open>os.path.join(a, b)\<close>: an absolute second argument discards the first.\<close>

definition join :: "string \<Rightarrow> string \<Rightarrow> string" where
  "join a b =
     (if prefix ''/'' b then b
      else if a = [] \<or> suffix ''/'' a then a @ b
      else a @ ''/'' @ b)"

text \<open>
  \<open>os.path.normpath\<close>.  \<open>norm_step\<close> is the body of its loop over the components;
  \<open>init\<close> is \<open>initial_slashes\<close> (0, 1 or 2).
\<close>

definition norm_step :: "nat \<Rightarrow> string list \<Rightarrow> string \<Rightarrow> string list" where
  "norm_step init new_comps part =
     (if part = [] \<or> part = ''.'' then new_comps
      else if part \<noteq> ''..'' \<or> (init = 0 \<and> new_comps = [])
              \<or> (new_comps \<noteq> [] \<and> last new_comps = ''..'')
           then new_comps @ [part]
      else if new_comps \<noteq> [] then butlast new_comps
      else new_comps)"

definition normpath :: "string \<Rightarrow> string" where
  "normpath path =
     (if path = [] then ''.''
      else
        let init = (if prefix ''/'' path
                    then (if prefix ''//'' path \<and> \<not> prefix ''///'' path then 2 else 1)
                    else 0);
            comps = foldl (norm_step init) [] (split_sep path);
            p = replicate init (CHR ''/'') @ join_sep comps
        in if p = [] then ''.'' else p)"

text \<open>
  \<open>os.path.abspath(path)\<close>, with the process's working directory \<open>cwd\<close> made an
  explicit argument.
\<close>

definition abspath :: "string \<Rightarrow> string \<Rightarrow> string" where
  "abspath cwd path = normpath (if prefix ''/'' path then path else join cwd path)"

text \<open>The non-empty components of the absolute form of a path.\<close>

definition abs_comps :: "string \<Rightarrow> string \<Rightarrow> string list" where
  "abs_comps cwd path = filter (\<lambda>x. x \<noteq> []) (split_sep (abspath cwd path))"

text \<open>
  \<open>os.path.relpath(path, start)\<close>.  \<open>relative_to\<close> is the computation after the
  initial check; \<open>relpath\<close> raises \<open>ValueError\<close> on the empty path.
\<close>

definition relative_to :: "string \<Rightarrow> string \<Rightarrow> string \<Rightarrow> string" where
  "relative_to cwd path start =
     (let start_list = abs_comps cwd start;
          path_list = abs_comps cwd path;
          i = length (longest_common_prefix start_list path_list);
          rel_list = replicate (length start_list - i) ''..'' @ drop i path_list
      in if rel_list = [] then ''.'' else join_sep rel_list)"

definition relpath :: "string \<Rightarrow> string \<Rightarrow> string \<Rightarrow> exn + string" where
  "relpath cwd path start =
     (if path = [] then Inl ValueError else Inr (relative_to cwd path start))"

section \<open>Configuration\<close>

text \<open>
  The JSON configuration read by \<open>SyncEngine._load_config\<close>: the keys the engine
  reads, with \<open>exclude_patterns\<close> empty when the key is missing.
\<close>

record dir_config =
  local_path :: string
  remote_path :: string
  exclude_patterns :: "string list"

record config =
  mount_point :: string
  sync_directories :: "dir_config list"

section \<open>SyncEngine: path mapping and exclusion\<close>

text \<open>
  \<open>SyncEngine._get_remote_path\<close>: the loop over \<open>sync_directories\<close> returns at the
  first entry whose \<open>local_path\<close> is a string prefix of the argument.
\<close>

fun get_remote_path_loop :: "string \<Rightarrow> string \<Rightarrow> dir_config list \<Rightarrow> string \<Rightarrow> exn + string option" where
  "get_remote_path_loop cwd mp [] lp = Inr None"
| "get_remote_path_loop cwd mp (dc # rest) lp =
     (let local_dir = local_path dc in
      if prefix local_dir lp then
        (case relpath cwd lp local_dir of
           Inl e \<Rightarrow> Inl e
         | Inr relative_path \<Rightarrow>
             let remote_dir = join mp (remote_path dc)
             in Inr (Some (join remote_dir relative_path)))
      else get_remote_path_loop cwd mp rest lp)"

definition get_remote_path :: "string \<Rightarrow> config \<Rightarrow> string \<Rightarrow> exn + string option" where
  "get_remote_path cwd cfg lp =
     get_remote_path_loop cwd (mount_point cfg) (sync_directories cfg) lp"

text \<open>
  \<open>SyncEngine._should_sync_file\<close>: the inner loop over one entry's patterns and the
  outer loop over all entries.  Each returns \<open>False\<close> as soon as a pattern matches.
\<close>

fun check_patterns :: "string \<Rightarrow> string list \<Rightarrow> bool" where
  "check_patterns filename [] = True"
| "check_patterns filename (pattern # rest) =
     (if prefix ''*'' pattern then
        (if suffix (drop 1 pattern) filename then False
         else check_patterns filename rest)
      else if suffix ''*'' pattern then
        (if prefix (butlast pattern) filename then False
         else check_patterns filename rest)
      else if pattern = filename then False
      else check_patterns filename rest)"

fun check_dirs :: "string \<Rightarrow> dir_config list \<Rightarrow> bool" where
  "check_dirs filename [] = True"
| "check_dirs filename (dc # rest) =
     (if check_patterns filename (exclude_patterns dc)
      then check_dirs filename rest else False)"

definition should_sync_file :: "config \<Rightarrow> string \<Rightarrow> bool" where
  "should_sync_file cfg file_path = check_dirs (basename file_path) (sync_directories cfg)"

text \<open>
  The exclusion rule in the words of the specification: a pattern beginning with
  \<open>*\<close> excludes names ending with the remainder, a pattern ending with \<open>*\<close> excludes
  names starting with the remainder, any other pattern excludes the equal name.
\<close>

definition spec_excludes :: "string \<Rightarrow> string \<Rightarrow> bool" where
  "spec_excludes pattern filename =
     (if prefix ''*'' pattern then suffix (tl pattern) filename
      else if suffix ''*'' pattern then prefix (butlast pattern) filename
      else pattern = filename)"

section \<open>MetadataDB\<close>

text \<open>
  What \<open>MetadataDB\<close> sees of the disk: \<open>os.path.exists\<close> and \<open>os.stat\<close> of a path.
  \<open>None\<close> is a path at which nothing exists.
\<close>

record stat_result =
  st_mtime :: real
  st_size :: nat

type_synonym disk = "string \<Rightarrow> stat_result option"

text \<open>
  A row of the table \<open>files\<close> (the surrogate key \<open>id\<close> is left out; \<open>path\<close> is
  \<open>UNIQUE\<close>, so the table is a map from paths to rows).  \<open>checksum\<close> is never
  written and stays \<open>NULL\<close>.
\<close>

record file_record =
  modified_time :: real
  file_size :: nat
  last_synced :: real
  sync_status :: string
  checksum :: "string option"

datatype db_log_entry =
    UpdatedMetadata string
  | DeletedMetadata string
  | ErrorUpdating string exn
  | ErrorDeleting string exn
  | ErrorGetting string exn

text \<open>
  The store: the table, whether \<open>sqlite3\<close> fails on the database file (a storage
  failure, raised by \<open>connect\<close>), and what the module has logged.
\<close>

record metadata_store =
  files :: "string \<rightharpoonup> file_record"
  storage_fails :: bool
  db_log :: "db_log_entry list"

text \<open>
  \<open>time.time()\<close> as \<open>metadata_db.py\<close> evaluates it.  The module imports \<open>os\<close>,
  \<open>json\<close>, \<open>logging\<close>, \<open>sqlite3\<close> and \<open>datetime.datetime\<close>; the name \<open>time\<close> is
  not bound in it, so the expression raises \<open>NameError\<close>.
\<close>

definition time_time :: "exn + real" where
  "time_time = Inl NameError"

definition db_logged :: "db_log_entry \<Rightarrow> metadata_store \<Rightarrow> metadata_store" where
  "db_logged e st = st\<lparr>db_log := db_log st @ [e]\<rparr>"

text \<open>\<open>MetadataDB.delete_file_metadata\<close>.\<close>

definition delete_file_metadata :: "string \<Rightarrow> metadata_store \<Rightarrow> metadata_store" where
  "delete_file_metadata file_path st =
     (if storage_fails st then db_logged (ErrorDeleting file_path SqliteError) st
      else db_logged (DeletedMetadata file_path) (st\<lparr>files := (files st)(file_path := None)\<rparr>))"

text \<open>
  \<open>MetadataDB.update_file_metadata\<close>.  The arguments of both \<open>execute\<close> calls
  contain \<open>time.time()\<close>, which is evaluated before the statement runs; whatever it
  raises is caught by the handler of the method, before \<open>commit\<close>.
\<close>

definition update_file_metadata :: "disk \<Rightarrow> string \<Rightarrow> metadata_store \<Rightarrow> metadata_store" where
  "update_file_metadata d file_path st =
     (case d file_path of
        None \<Rightarrow> delete_file_metadata file_path st
      | Some stat \<Rightarrow>
          if storage_fails st then db_logged (ErrorUpdating file_path SqliteError) st
          else
            (case files st file_path of
               Some existing \<Rightarrow>
                 (case time_time of
                    Inl e \<Rightarrow> db_logged (ErrorUpdating file_path e) st
                  | Inr now \<Rightarrow>
                      db_logged (UpdatedMetadata file_path)
                        (st\<lparr>files := (files st)(file_path \<mapsto>
                             existing\<lparr>modified_time := st_mtime stat, file_size := st_size stat,
                                       last_synced := now, sync_status := ''synced''\<rparr>)\<rparr>))
             | None \<Rightarrow>
                 (case time_time of
                    Inl e \<Rightarrow> db_logged (ErrorUpdating file_path e) st
                  | Inr now \<Rightarrow>
                      db_logged (UpdatedMetadata file_path)
                        (st\<lparr>files := (files st)(file_path \<mapsto>
                             \<lparr>modified_time = st_mtime stat, file_size = st_size stat,
                              last_synced = now, sync_status = ''synced'',
                              checksum = None\<rparr>)\<rparr>))))"

text \<open>\<open>MetadataDB.get_file_metadata\<close>: the row, or \<open>None\<close> also when the query fails.\<close>

definition get_file_metadata :: "string \<Rightarrow> metadata_store \<Rightarrow> file_record option \<times> metadata_store" where
  "get_file_metadata file_path st =
     (if storage_fails st then (None, db_logged (ErrorGetting file_path SqliteError) st)
      else (files st file_path, st))"

text \<open>\<open>MetadataDB.needs_sync\<close>.\<close>

definition needs_sync :: "disk \<Rightarrow> string \<Rightarrow> metadata_store \<Rightarrow> bool \<times> metadata_store" where
  "needs_sync d file_path st =
     (case d file_path of
        None \<Rightarrow> (False, st)
      | Some stat \<Rightarrow>
          (case get_file_metadata file_path st of
             (None, st') \<Rightarrow> (True, st')
           | (Some metadata, st') \<Rightarrow>
               (st_mtime stat > modified_time metadata \<or> st_size stat \<noteq> file_size metadata, st')))"

section \<open>The file tree\<close>

text \<open>
  The engine reads and writes one tree of files through \<open>os\<close> and \<open>shutil\<close>; the
  remote side is the part of that tree under the mount point.  The tree is a list of
  entries keyed by the components of their absolute paths; the root is always a
  directory.  A regular file carries its bytes and its modification time, which is what
  \<open>shutil.copy2\<close> transfers.  Modelling assumptions on the library: no symbolic links,
  \<open>..\<close> is resolved lexically (as \<open>os.path.abspath\<close> does), a trailing separator is
  ignored, and a call fails only for the structural reasons written out below (a missing
  or misplaced entry), not for permissions or device errors.
\<close>

datatype node = File (content: string) (mtime: real) | Dir

type_synonym filesystem = "(string list \<times> node) list"

definition node_at :: "filesystem \<Rightarrow> string list \<Rightarrow> node option" where
  "node_at t c = (if c = [] then Some Dir else map_of t c)"

text \<open>What is at a path given as a string; nothing is at the empty string.\<close>

definition lookup :: "string \<Rightarrow> filesystem \<Rightarrow> string \<Rightarrow> node option" where
  "lookup wd t p = (if p = [] then None else node_at t (abs_comps wd p))"

definition path_exists :: "string \<Rightarrow> filesystem \<Rightarrow> string \<Rightarrow> bool" where
  "path_exists wd t p = (lookup wd t p \<noteq> None)"

definition isdir :: "string \<Rightarrow> filesystem \<Rightarrow> string \<Rightarrow> bool" where
  "isdir wd t p = (lookup wd t p = Some Dir)"

text \<open>\<open>os.path.samefile\<close> as \<open>shutil\<close> uses it: false when either path is missing.\<close>

definition samefile :: "string \<Rightarrow> filesystem \<Rightarrow> string \<Rightarrow> string \<Rightarrow> bool" where
  "samefile wd t a b =
     (path_exists wd t a \<and> path_exists wd t b \<and> abs_comps wd a = abs_comps wd b)"

text \<open>
  \<open>os.makedirs(name, exist_ok=True)\<close>: every missing directory on the way to \<open>name\<close>
  is created; a regular file on the way makes the call fail.
\<close>

fun mkdirs_from :: "filesystem \<Rightarrow> string list \<Rightarrow> string list \<Rightarrow> exn + filesystem" where
  "mkdirs_from t cur [] = Inr t"
| "mkdirs_from t cur (c # cs) =
     (case node_at t (cur @ [c]) of
        Some Dir \<Rightarrow> mkdirs_from t (cur @ [c]) cs
      | Some (File _ _) \<Rightarrow> Inl (if cs = [] then FileExistsError else NotADirectoryError)
      | None \<Rightarrow> mkdirs_from (AList.update (cur @ [c]) Dir t) (cur @ [c]) cs)"

definition makedirs :: "string \<Rightarrow> filesystem \<Rightarrow> string \<Rightarrow> exn + filesystem" where
  "makedirs wd t name =
     (if name = [] then Inl FileNotFoundError else mkdirs_from t [] (abs_comps wd name))"

text \<open>
  Opening \<open>dst\<close> for writing and storing a regular file there: the parent must be a
  directory and \<open>dst\<close> must not be one.
\<close>

definition write_file :: "string \<Rightarrow> filesystem \<Rightarrow> string \<Rightarrow> node \<Rightarrow> exn + filesystem" where
  "write_file wd t dst n =
     (if dst = [] then Inl FileNotFoundError
      else
        let c = abs_comps wd dst in
        case node_at t c of
          Some Dir \<Rightarrow> Inl IsADirectoryError
        | _ \<Rightarrow>
            (case node_at t (butlast c) of
               None \<Rightarrow> Inl FileNotFoundError
             | Some (File _ _) \<Rightarrow> Inl NotADirectoryError
             | Some Dir \<Rightarrow> Inr (AList.update c n t)))"

text \<open>
  \<open>shutil.copy2(src, dst)\<close>: into \<open>dst\<close> when it is a directory, over \<open>dst\<close>
  otherwise; bytes and modification time are copied.
\<close>

definition copy2 :: "string \<Rightarrow> filesystem \<Rightarrow> string \<Rightarrow> string \<Rightarrow> exn + filesystem" where
  "copy2 wd t src dst =
     (let dst' = (if isdir wd t dst then join dst (basename src) else dst) in
      if samefile wd t src dst' then Inl SameFileError
      else
        case lookup wd t src of
          None \<Rightarrow> Inl FileNotFoundError
        | Some Dir \<Rightarrow> Inl IsADirectoryError
        | Some (File c m) \<Rightarrow> write_file wd t dst' (File c m))"







text \<open>\<open>os.remove(p)\<close>.\<close>

definition os_remove :: "string \<Rightarrow> filesystem \<Rightarrow> string \<Rightarrow> exn + filesystem" where
  "os_remove wd t p =
     (case lookup wd t p of
        None \<Rightarrow> Inl FileNotFoundError
      | Some Dir \<Rightarrow> Inl IsADirectoryError
      | Some (File _ _) \<Rightarrow> Inr (AList.delete (abs_comps wd p) t))"

text \<open>
  \<open>shutil.move(src, dst)\<close>: \<open>os.rename\<close>, and where that fails a copy followed by the
  removal of the source.  A directory is moved with everything below it.
\<close>

definition shutil_basename :: "string \<Rightarrow> string" where
  "shutil_basename p = basename (rev (dropWhile (\<lambda>c. c = CHR ''/'') (rev p)))"

definition relocate :: "string list \<Rightarrow> string list \<Rightarrow> filesystem \<Rightarrow> filesystem" where
  "relocate a b t =
     map (\<lambda>(p, n). if prefix a p then (b @ drop (length a) p, n) else (p, n)) t"

definition move :: "string \<Rightarrow> filesystem \<Rightarrow> string \<Rightarrow> string \<Rightarrow> exn + filesystem" where
  "move wd t src dst =
     (if isdir wd t dst \<and> samefile wd t src dst then Inr t
      else
        let real_dst = (if isdir wd t dst then join dst (shutil_basename src) else dst) in
        if isdir wd t dst \<and> path_exists wd t real_dst then Inl ShutilError
        else
          case lookup wd t src of
            None \<Rightarrow> Inl FileNotFoundError
          | Some (File c m) \<Rightarrow>
              if samefile wd t src real_dst then Inr t
              else (case write_file wd t real_dst (File c m) of
                      Inl e \<Rightarrow> Inl e
                    | Inr t' \<Rightarrow> Inr (AList.delete (abs_comps wd src) t'))
          | Some Dir \<Rightarrow>
              if real_dst = [] then Inl FileNotFoundError
              else if prefix (abs_comps wd src) (abs_comps wd real_dst) then Inl ShutilError
              else if node_at t (abs_comps wd real_dst) \<noteq> None then Inl FileExistsError
              else (case mkdirs_from t [] (butlast (abs_comps wd real_dst)) of
                      Inl e \<Rightarrow> Inl e
                    | Inr t' \<Rightarrow>
                        Inr (relocate (abs_comps wd src) (abs_comps wd real_dst) t')))"

text \<open>
  One step of \<open>os.walk\<close>: the names of the sub-directories and of the other entries
  of \<open>top\<close>.  \<open>None\<close> when \<open>top\<close> cannot be listed, which \<open>os.walk\<close> ignores.
\<close>

definition scandir :: "string \<Rightarrow> filesystem \<Rightarrow> string \<Rightarrow> (string list \<times> string list) option" where
  "scandir wd t topdir =
     (if isdir wd t topdir then
        let entries = filter (\<lambda>(p, n). p \<noteq> [] \<and> butlast p = abs_comps wd topdir) t
        in Some (map (\<lambda>(p, n). last p) (filter (\<lambda>(p, n). n = Dir) entries),
                 map (\<lambda>(p, n). last p) (filter (\<lambda>(p, n). n \<noteq> Dir) entries))
      else None)"

section \<open>SyncEngine\<close>

datatype log_entry =
    SkippingExcluded string
  | NoRemotePath string
  | Synced string string string
  | DeletedRemote string
  | MovedRemote string string
  | ErrorSyncing string exn
  | StartingDirectorySync string string
  | StartingFullSync
  | LocalDirectoryMissing string
  | FullSyncCompleted

text \<open>
  The state the engine runs in: the working directory and the file tree of the process,
  the engine's own attribute \<open>metadata_db\<close> (a dictionary, created empty by
  \<open>__init__\<close>), the database of \<open>MetadataDB\<close>, and the engine's log.
\<close>

record engine_state =
  cwd :: string
  fs :: filesystem
  metadata_db :: "string \<rightharpoonup> file_record"
  store :: metadata_store
  engine_log :: "log_entry list"

text \<open>How a call ends: it returns, or an exception leaves it.\<close>

datatype outcome = Returned engine_state | Raised exn engine_state

definition final_state :: "outcome \<Rightarrow> engine_state" where
  "final_state r = (case r of Returned s \<Rightarrow> s | Raised e s \<Rightarrow> s)"

definition raised :: "outcome \<Rightarrow> exn option" where
  "raised r = (case r of Returned s \<Rightarrow> None | Raised e s \<Rightarrow> Some e)"

definition logged :: "log_entry \<Rightarrow> engine_state \<Rightarrow> engine_state" where
  "logged e s = s\<lparr>engine_log := engine_log s @ [e]\<rparr>"

text \<open>Python's truth value of an optional string: \<open>None\<close> and \<open>''\<close> are false.\<close>

definition truthy :: "string option \<Rightarrow> bool" where
  "truthy x = (x \<noteq> None \<and> x \<noteq> Some [])"

text \<open>
  The \<open>try\<close> block of \<open>SyncEngine.sync_file\<close>: the state it reaches and the exception
  that left it, if any.
\<close>

definition sync_action ::
  "config \<Rightarrow> string \<Rightarrow> string \<Rightarrow> string \<Rightarrow> string option \<Rightarrow> engine_state
     \<Rightarrow> engine_state \<times> exn option" where
  "sync_action cfg action file_path remote_path' dest_path s =
     (if action = ''created'' \<or> action = ''modified'' then
        (case makedirs (cwd s) (fs s) (dirname remote_path') of
           Inl e \<Rightarrow> (s, Some e)
         | Inr t1 \<Rightarrow>
             (case copy2 (cwd s) t1 file_path remote_path' of
                Inl e \<Rightarrow> (s\<lparr>fs := t1\<rparr>, Some e)
              | Inr t2 \<Rightarrow> (logged (Synced action file_path remote_path') (s\<lparr>fs := t2\<rparr>), None)))
      else if action = ''deleted'' then
        (if path_exists (cwd s) (fs s) remote_path' then
           (case os_remove (cwd s) (fs s) remote_path' of
              Inl e \<Rightarrow> (s, Some e)
            | Inr t1 \<Rightarrow> (logged (DeletedRemote remote_path') (s\<lparr>fs := t1\<rparr>), None))
         else (s, None))
      else if action = ''moved'' then
        (case dest_path of
           None \<Rightarrow> (s, None)
         | Some dp \<Rightarrow>
             if dp = [] then (s, None)
             else
               (case get_remote_path (cwd s) cfg dp of
                  Inl e \<Rightarrow> (s, Some e)
                | Inr None \<Rightarrow> (s, None)
                | Inr (Some remote_dest) \<Rightarrow>
                    if remote_dest = [] then (s, None)
                    else
                      (case makedirs (cwd s) (fs s) (dirname remote_dest) of
                         Inl e \<Rightarrow> (s, Some e)
                       | Inr t1 \<Rightarrow>
                           (case move (cwd s) t1 remote_path' remote_dest of
                              Inl e \<Rightarrow> (s\<lparr>fs := t1\<rparr>, Some e)
                            | Inr t2 \<Rightarrow>
                                (logged (MovedRemote remote_path' remote_dest) (s\<lparr>fs := t2\<rparr>),
                                 None)))))
      else (s, None))"

text \<open>
  \<open>SyncEngine.sync_file\<close>.  The exclusion check and the choice of \<open>remote_path\<close>
  (\<open>dest_path or self._get_remote_path(file_path)\<close>) come before the \<open>try\<close> block.
\<close>

definition sync_file ::
  "config \<Rightarrow> string \<Rightarrow> string \<Rightarrow> string option \<Rightarrow> engine_state \<Rightarrow> outcome" where
  "sync_file cfg action file_path dest_path s =
     (if \<not> should_sync_file cfg file_path then Returned (logged (SkippingExcluded file_path) s)
      else
        case (if truthy dest_path then Inr dest_path
              else get_remote_path (cwd s) cfg file_path) of
          Inl e \<Rightarrow> Raised e s
        | Inr None \<Rightarrow> Returned (logged (NoRemotePath file_path) s)
        | Inr (Some remote_path') \<Rightarrow>
            if remote_path' = [] then Returned (logged (NoRemotePath file_path) s)
            else
              (case sync_action cfg action file_path remote_path' dest_path s of
                 (s', None) \<Rightarrow> Returned s'
               | (s', Some e) \<Rightarrow> Returned (logged (ErrorSyncing file_path e) s')))"

text \<open>
  \<open>SyncEngine.sync_directory\<close>.  The two inner loops of the body of the walk, then
  the walk itself.  \<open>os.walk\<close> lists a directory when it reaches it, after the body has
  run for everything before it, so the walk reads the tree as the copies have left it;
  the recursion is bounded by fuel and \<open>None\<close> is a walk that has not ended within it.
\<close>

fun make_dirs_loop :: "string \<Rightarrow> string \<Rightarrow> string \<Rightarrow> string list \<Rightarrow> engine_state \<Rightarrow> outcome" where
  "make_dirs_loop local_dir remote_dir rootdir [] s = Returned s"
| "make_dirs_loop local_dir remote_dir rootdir (dir_name # rest) s =
     (let lp = join rootdir dir_name in
      case relpath (cwd s) lp local_dir of
        Inl e \<Rightarrow> Raised e s
      | Inr relative_path \<Rightarrow>
          (case makedirs (cwd s) (fs s) (join remote_dir relative_path) of
             Inl e \<Rightarrow> Raised e s
           | Inr t1 \<Rightarrow> make_dirs_loop local_dir remote_dir rootdir rest (s\<lparr>fs := t1\<rparr>)))"

fun sync_files_loop ::
  "config \<Rightarrow> string \<Rightarrow> string \<Rightarrow> string \<Rightarrow> string list \<Rightarrow> engine_state \<Rightarrow> outcome" where
  "sync_files_loop cfg local_dir remote_dir rootdir [] s = Returned s"
| "sync_files_loop cfg local_dir remote_dir rootdir (file_name # rest) s =
     (let lp = join rootdir file_name in
      if should_sync_file cfg lp then
        (case relpath (cwd s) lp local_dir of
           Inl e \<Rightarrow> Raised e s
         | Inr relative_path \<Rightarrow>
             (case sync_file cfg ''created'' lp (Some (join remote_dir relative_path)) s of
                Raised e s' \<Rightarrow> Raised e s'
              | Returned s' \<Rightarrow> sync_files_loop cfg local_dir remote_dir rootdir rest s'))
      else sync_files_loop cfg local_dir remote_dir rootdir rest s)"

fun for_each ::
  "('a \<Rightarrow> engine_state \<Rightarrow> outcome option) \<Rightarrow> 'a list \<Rightarrow> engine_state \<Rightarrow> outcome option" where
  "for_each f [] s = Some (Returned s)"
| "for_each f (x # xs) s =
     (case f x s of
        None \<Rightarrow> None
      | Some (Raised e s') \<Rightarrow> Some (Raised e s')
      | Some (Returned s') \<Rightarrow> for_each f xs s')"

fun walk ::
  "nat \<Rightarrow> config \<Rightarrow> string \<Rightarrow> string \<Rightarrow> string \<Rightarrow> engine_state \<Rightarrow> outcome option" where
  "walk 0 cfg local_dir remote_dir topdir s = None"
| "walk (Suc n) cfg local_dir remote_dir topdir s =
     (case scandir (cwd s) (fs s) topdir of
        None \<Rightarrow> Some (Returned s)
      | Some (dir_names, file_names) \<Rightarrow>
          (case make_dirs_loop local_dir remote_dir topdir dir_names s of
             Raised e s' \<Rightarrow> Some (Raised e s')
           | Returned s1 \<Rightarrow>
               (case sync_files_loop cfg local_dir remote_dir topdir file_names s1 of
                  Raised e s' \<Rightarrow> Some (Raised e s')
                | Returned s2 \<Rightarrow>
                    for_each (\<lambda>d. walk n cfg local_dir remote_dir (join topdir d)) dir_names s2)))"

definition sync_directory ::
  "nat \<Rightarrow> config \<Rightarrow> string \<Rightarrow> string \<Rightarrow> engine_state \<Rightarrow> outcome option" where
  "sync_directory n cfg local_dir remote_dir s =
     (let s0 = logged (StartingDirectorySync local_dir remote_dir) s in
      case makedirs (cwd s0) (fs s0) remote_dir of
        Inl e \<Rightarrow> Some (Raised e s0)
      | Inr t1 \<Rightarrow> walk n cfg local_dir remote_dir local_dir (s0\<lparr>fs := t1\<rparr>))"

text \<open>\<open>SyncEngine.full_sync\<close>: the loop over \<open>sync_directories\<close>, then the method.\<close>

definition full_sync_step :: "nat \<Rightarrow> config \<Rightarrow> dir_config \<Rightarrow> engine_state \<Rightarrow> outcome option" where
  "full_sync_step n cfg dc s =
     (let lp = local_path dc;
          rp = join (mount_point cfg) (remote_path dc)
      in if path_exists (cwd s) (fs s) lp then sync_directory n cfg lp rp s
         else Some (Returned (logged (LocalDirectoryMissing lp) s)))"

definition full_sync :: "nat \<Rightarrow> config \<Rightarrow> engine_state \<Rightarrow> outcome option" where
  "full_sync n cfg s =
     (case for_each (full_sync_step n cfg) (sync_directories cfg) (logged StartingFullSync s) of
        None \<Rightarrow> None
      | Some (Raised e s') \<Rightarrow> Some (Raised e s')
      | Some (Returned s') \<Rightarrow> Some (Returned (logged FullSyncCompleted s')))"

section \<open>Example configurations and states\<close>

text \<open>Two mappings; the exclusion patterns of the second one apply to every path.\<close>

definition example_config :: config where
  "example_config =
     \<lparr>mount_point = ''/mnt/remote'',
      sync_directories =
        [\<lparr>local_path = ''/data/proj'', remote_path = ''proj'', exclude_patterns = [''*.log'']\<rparr>,
         \<lparr>local_path = ''/home/u'', remote_path = ''home'',
          exclude_patterns = [''*.tmp'', ''cache*'', ''secret.txt'']\<rparr>]\<rparr>"

text \<open>The root \<open>/data\<close> comes before \<open>/database\<close> and is a string prefix of it.\<close>

definition overlap_config :: config where
  "overlap_config =
     \<lparr>mount_point = ''/mnt/remote'',
      sync_directories =
        [\<lparr>local_path = ''/data'', remote_path = ''d'', exclude_patterns = []\<rparr>,
         \<lparr>local_path = ''/database'', remote_path = ''db'', exclude_patterns = []\<rparr>]\<rparr>"

text \<open>The mapping of the end-to-end example of the specification.\<close>

definition proj_config :: config where
  "proj_config =
     \<lparr>mount_point = ''/mnt/remote'',
      sync_directories =
        [\<lparr>local_path = ''/data/proj'', remote_path = ''proj'', exclude_patterns = [''*.log'']\<rparr>]\<rparr>"

definition a_record :: file_record where
  "a_record = \<lparr>modified_time = 100, file_size = 12, last_synced = 101,
                sync_status = ''synced'', checksum = None\<rparr>"

definition store_with_a :: metadata_store where
  "store_with_a = \<lparr>files = [''/data/a'' \<mapsto> a_record], storage_fails = False, db_log = []\<rparr>"

definition empty_store :: metadata_store where
  "empty_store = \<lparr>files = Map.empty, storage_fails = False, db_log = []\<rparr>"

definition disk_with_a :: disk where
  "disk_with_a = [''/data/a'' \<mapsto> \<lparr>st_mtime = 100, st_size = 12\<rparr>]"

definition disk_with_newer_a :: disk where
  "disk_with_newer_a = [''/data/a'' \<mapsto> \<lparr>st_mtime = 250, st_size = 12\<rparr>]"

text \<open>
  A tree in which \<open>old.txt\<close>, \<open>gone.txt\<close> and \<open>debug.log\<close> were copied to the remote
  side earlier; locally \<open>old.txt\<close> has since been renamed to \<open>new.txt\<close> and \<open>gone.txt\<close>
  and \<open>debug.log\<close> have been deleted.  The database holds rows for \<open>old.txt\<close> and
  \<open>gone.txt\<close>.
\<close>

definition synced_state :: engine_state where
  "synced_state =
     \<lparr>cwd = ''/'',
      fs = [([''data''], Dir),
            ([''data'', ''proj''], Dir),
            ([''data'', ''proj'', ''src''], Dir),
            ([''data'', ''proj'', ''src'', ''main.c''], File ''int main'' 5),
            ([''data'', ''proj'', ''new.txt''], File ''old bytes'' 7),
            ([''mnt''], Dir),
            ([''mnt'', ''remote''], Dir),
            ([''mnt'', ''remote'', ''proj''], Dir),
            ([''mnt'', ''remote'', ''proj'', ''old.txt''], File ''old bytes'' 7),
            ([''mnt'', ''remote'', ''proj'', ''gone.txt''], File ''gone bytes'' 8),
            ([''mnt'', ''remote'', ''proj'', ''debug.log''], File ''log bytes'' 9)],
      metadata_db = Map.empty,
      store = \<lparr>files = [''/data/proj/old.txt'' \<mapsto> a_record,
                       ''/data/proj/gone.txt'' \<mapsto> a_record],
               storage_fails = False, db_log = []\<rparr>,
      engine_log = []\<rparr>"

text \<open>
  Two mappings; under the remote directory of the first, a regular file \<open>sub\<close> is where
  the walk wants a directory.
\<close>

definition two_config :: config where
  "two_config =
     \<lparr>mount_point = ''/mnt/remote'',
      sync_directories =
        [\<lparr>local_path = ''/data/a'', remote_path = ''a'', exclude_patterns = []\<rparr>,
         \<lparr>local_path = ''/data/b'', remote_path = ''b'', exclude_patterns = []\<rparr>]\<rparr>"

definition blocked_state :: engine_state where
  "blocked_state =
     \<lparr>cwd = ''/'',
      fs = [([''data''], Dir),
            ([''data'', ''a''], Dir),
            ([''data'', ''a'', ''sub''], Dir),
            ([''data'', ''a'', ''f.txt''], File ''one'' 1),
            ([''data'', ''b''], Dir),
            ([''data'', ''b'', ''g.txt''], File ''two'' 2),
            ([''mnt''], Dir),
            ([''mnt'', ''remote''], Dir),
            ([''mnt'', ''remote'', ''a''], Dir),
            ([''mnt'', ''remote'', ''a'', ''sub''], File ''in the way'' 0)],
      metadata_db = Map.empty,
      store = empty_store,
      engine_log = []\<rparr>"

section \<open>Properties of the path functions\<close>

lemma join_sep_nonempty: "cs \<noteq> [] \<Longrightarrow> \<forall>c\<in>set cs. c \<noteq> [] \<Longrightarrow> join_sep cs \<noteq> []"
  by (induction cs rule: join_sep.induct) auto

lemma abs_comps_nonempty: "c \<in> set (abs_comps wd p) \<Longrightarrow> c \<noteq> []"
  by (auto simp: abs_comps_def)

lemma relative_to_nonempty: "relative_to wd p start \<noteq> []"
proof -
  let ?sl = "abs_comps wd start" and ?pl = "abs_comps wd p"
  let ?i = "length (longest_common_prefix ?sl ?pl)"
  let ?rel = "replicate (length ?sl - ?i) ''..'' @ drop ?i ?pl"
  have "\<forall>c\<in>set ?rel. c \<noteq> []"
    by (auto dest: in_set_dropD abs_comps_nonempty)
  then have "?rel \<noteq> [] \<Longrightarrow> join_sep ?rel \<noteq> []"
    by (rule join_sep_nonempty [rotated])
  then show ?thesis
    by (auto simp: relative_to_def Let_def)
qed

lemma join_nonempty: "b \<noteq> [] \<Longrightarrow> join a b \<noteq> []"
  by (auto simp: join_def)

lemma get_remote_path_loop_nonempty:
  "get_remote_path_loop wd mp dcs lp = Inr (Some r) \<Longrightarrow> r \<noteq> []"
  by (induction dcs)
     (auto simp: relpath_def Let_def join_nonempty relative_to_nonempty split: if_splits)

lemma get_remote_path_nonempty: "get_remote_path wd cfg lp = Inr (Some r) \<Longrightarrow> r \<noteq> []"
  by (auto simp: get_remote_path_def dest: get_remote_path_loop_nonempty)

lemma check_patterns_iff:
  "check_patterns filename ps = (\<forall>p\<in>set ps. \<not> spec_excludes p filename)"
  by (induction ps) (auto simp: spec_excludes_def drop_Suc)

lemma check_dirs_iff:
  "check_dirs filename dcs =
     (\<forall>dc\<in>set dcs. \<forall>p\<in>set (exclude_patterns dc). \<not> spec_excludes p filename)"
  by (induction dcs) (auto simp: check_patterns_iff)

lemma get_remote_path_loop_find:
  "lp \<noteq> [] \<Longrightarrow>
   get_remote_path_loop wd mp dcs lp =
     (case find (\<lambda>dc. prefix (local_path dc) lp) dcs of
        None \<Rightarrow> Inr None
      | Some dc \<Rightarrow> Inr (Some (join (join mp (remote_path dc))
                                   (relative_to wd lp (local_path dc)))))"
  by (induction dcs) (auto simp: relpath_def Let_def)

section \<open>Sync policy and path mapper\<close>

text \<open>
  Claim C5.  \<open>_should_sync_file\<close> looks at the file name only and scans the exclusion
  patterns of every configured mapping: the file is synced exactly when no pattern of
  any mapping excludes its name, where a pattern beginning with \<open>*\<close> excludes the names
  ending with the rest of it, otherwise a pattern ending with \<open>*\<close> excludes the names
  starting with the rest of it, and any other pattern excludes the equal name only.
\<close>

theorem should_sync_file_global_scan:
  "should_sync_file cfg file_path =
     (\<forall>dc\<in>set (sync_directories cfg). \<forall>p\<in>set (exclude_patterns dc).
        \<not> spec_excludes p (basename file_path))"
  by (simp add: should_sync_file_def check_dirs_iff)

theorem should_sync_file_global_scan_witness:
  "\<not> should_sync_file example_config ''/data/proj/a.tmp''
   \<and> \<not> should_sync_file example_config ''/data/proj/cache_1.txt''
   \<and> \<not> should_sync_file example_config ''/data/proj/secret.txt''
   \<and> should_sync_file example_config ''/data/proj/secret.txt.bak''"
proof -
  have e1: "(\<forall>dc\<in>set (sync_directories example_config). \<forall>p\<in>set (exclude_patterns dc).
              \<not> spec_excludes p (basename ''/data/proj/a.tmp'')) = False"
    by code_simp
  have e2: "(\<forall>dc\<in>set (sync_directories example_config). \<forall>p\<in>set (exclude_patterns dc).
              \<not> spec_excludes p (basename ''/data/proj/cache_1.txt'')) = False"
    by code_simp
  have e3: "(\<forall>dc\<in>set (sync_directories example_config). \<forall>p\<in>set (exclude_patterns dc).
              \<not> spec_excludes p (basename ''/data/proj/secret.txt'')) = False"
    by code_simp
  have e4: "(\<forall>dc\<in>set (sync_directories example_config). \<forall>p\<in>set (exclude_patterns dc).
              \<not> spec_excludes p (basename ''/data/proj/secret.txt.bak'')) = True"
    by code_simp
  show ?thesis
    using trans [OF should_sync_file_global_scan e1] trans [OF should_sync_file_global_scan e2]
          trans [OF should_sync_file_global_scan e3] trans [OF should_sync_file_global_scan e4]
    by simp
qed

text \<open>
  Claim C6.  \<open>_get_remote_path\<close> scans the mappings in configuration order; the first
  one whose \<open>local_path\<close> is a string prefix of the argument decides, and the result is
  the mount point joined with that mapping's \<open>remote_path\<close> and with the argument
  relative to its \<open>local_path\<close>.  The result is absent when no \<open>local_path\<close> is a
  prefix.  (\<open>os.path.relpath\<close> rejects the empty string, which is not a path.)
\<close>

theorem get_remote_path_first_prefix:
  assumes "lp \<noteq> []"
  shows "get_remote_path wd cfg lp =
     (case find (\<lambda>dc. prefix (local_path dc) lp) (sync_directories cfg) of
        None \<Rightarrow> Inr None
      | Some dc \<Rightarrow> Inr (Some (join (join (mount_point cfg) (remote_path dc))
                                   (relative_to wd lp (local_path dc)))))"
  using assms by (simp add: get_remote_path_def get_remote_path_loop_find)

theorem get_remote_path_first_prefix_witness:
  "''/database/x'' \<noteq> []
   \<and> get_remote_path ''/'' overlap_config ''/database/x''
       = Inr (Some ''/mnt/remote/d/../database/x'')"
proof -
  have h: "''/database/x'' \<noteq> []" by simp
  have e: "(case find (\<lambda>dc. prefix (local_path dc) ''/database/x'')
                   (sync_directories overlap_config) of
              None \<Rightarrow> Inr None
            | Some dc \<Rightarrow> Inr (Some (join (join (mount_point overlap_config) (remote_path dc))
                                    (relative_to ''/'' ''/database/x'' (local_path dc)))))
           = (Inr (Some ''/mnt/remote/d/../database/x'') :: exn + string option)"
    by code_simp
  have "get_remote_path ''/'' overlap_config ''/database/x''
          = Inr (Some ''/mnt/remote/d/../database/x'')"
    by (rule trans [OF get_remote_path_first_prefix [OF h] e])
  with h show ?thesis by simp
qed

section \<open>Metadata store\<close>

text \<open>
  Claim C2, as stated, fails where the file is gone and a row exists: \<open>needs_sync\<close>
  answers false there.
\<close>

theorem needs_sync_missing_file_counterexample:
  "files store_with_a ''/data/a'' = Some a_record
   \<and> (Map.empty :: disk) ''/data/a'' = None
   \<and> \<not> fst (needs_sync Map.empty ''/data/a'' store_with_a)"
  by (simp add: needs_sync_def store_with_a_def)

text \<open>
  Claim C2, amended.  \<open>needs_sync\<close> answers false whenever nothing exists at the path,
  whether or not a row exists; for an existing file it answers true when no row exists,
  and with a readable row it answers true exactly when the file's modification time is
  strictly greater than the row's or the sizes differ.
\<close>

theorem needs_sync_cases:
  "(d file_path = None \<longrightarrow> \<not> fst (needs_sync d file_path st))
   \<and> (d file_path \<noteq> None \<and> files st file_path = None \<longrightarrow> fst (needs_sync d file_path st))
   \<and> (\<forall>stat metadata.
         d file_path = Some stat \<and> files st file_path = Some metadata \<and> \<not> storage_fails st \<longrightarrow>
         fst (needs_sync d file_path st)
           = (st_mtime stat > modified_time metadata \<or> st_size stat \<noteq> file_size metadata))"
  by (auto simp: needs_sync_def get_file_metadata_def split: option.splits)

theorem needs_sync_cases_witness:
  "\<not> fst (needs_sync Map.empty ''/data/a'' store_with_a)
   \<and> fst (needs_sync disk_with_a ''/data/a'' empty_store)
   \<and> \<not> fst (needs_sync disk_with_a ''/data/a'' store_with_a)
   \<and> fst (needs_sync disk_with_newer_a ''/data/a'' store_with_a)"
proof -
  have 1: "\<not> fst (needs_sync Map.empty ''/data/a'' store_with_a)"
    using needs_sync_cases [of Map.empty "''/data/a''" store_with_a] by simp
  have 2: "fst (needs_sync disk_with_a ''/data/a'' empty_store)"
    using needs_sync_cases [of disk_with_a "''/data/a''" empty_store]
    by (simp add: disk_with_a_def empty_store_def)
  have 3: "\<not> fst (needs_sync disk_with_a ''/data/a'' store_with_a)"
    using needs_sync_cases [of disk_with_a "''/data/a''" store_with_a]
    by (simp add: disk_with_a_def store_with_a_def a_record_def)
  have 4: "fst (needs_sync disk_with_newer_a ''/data/a'' store_with_a)"
    using needs_sync_cases [of disk_with_newer_a "''/data/a''" store_with_a]
    by (simp add: disk_with_newer_a_def store_with_a_def a_record_def)
  from 1 2 3 4 show ?thesis by simp
qed

text \<open>
  Claim C3.  \<open>update_file_metadata\<close> on an existing file with no row: the claim
  promises a new row with status \<open>synced\<close>; the method logs a \<open>NameError\<close> and the
  table stays empty.
\<close>

theorem update_file_metadata_existing_file:
  "disk_with_a ''/data/a'' = Some \<lparr>st_mtime = 100, st_size = 12\<rparr>
   \<and> files (update_file_metadata disk_with_a ''/data/a'' empty_store) ''/data/a'' = None
   \<and> db_log (update_file_metadata disk_with_a ''/data/a'' empty_store)
       = [ErrorUpdating ''/data/a'' NameError]"
  by (simp add: update_file_metadata_def disk_with_a_def empty_store_def time_time_def
                db_logged_def)

section \<open>Properties of the file tree operations\<close>

lemma lookup_delete_same: "p \<noteq> [] \<Longrightarrow> lookup wd t p \<noteq> Some Dir \<Longrightarrow>
   lookup wd (AList.delete (abs_comps wd p) t) p = None"
  by (auto simp: lookup_def node_at_def delete_conv split: if_splits)

lemma lookup_delete_other: "abs_comps wd q \<noteq> abs_comps wd p \<Longrightarrow>
   lookup wd (AList.delete (abs_comps wd p) t) q = lookup wd t q"
  by (auto simp: lookup_def node_at_def delete_conv)


lemma node_at_delete:
  "k \<noteq> [] \<Longrightarrow> node_at (AList.delete k t) p = (if p = k then None else node_at t p)"
  by (simp add: node_at_def delete_conv)


















section \<open>Reconciler\<close>

text \<open>
  Claim C10.  The exclusion check comes before everything else in \<open>sync_file\<close>: for a
  path whose file name is excluded the call only logs that it skips the file, whatever
  the action and the destination, and leaves the file tree, the engine's dictionary and
  the metadata database as they were.
\<close>

theorem sync_file_excluded_is_noop:
  assumes "\<not> should_sync_file cfg file_path"
  shows "sync_file cfg action file_path dest_path s = Returned (logged (SkippingExcluded file_path) s)
         \<and> fs (final_state (sync_file cfg action file_path dest_path s)) = fs s
         \<and> metadata_db (final_state (sync_file cfg action file_path dest_path s)) = metadata_db s
         \<and> store (final_state (sync_file cfg action file_path dest_path s)) = store s"
  using assms by (simp add: sync_file_def final_state_def logged_def)

theorem sync_file_excluded_is_noop_witness:
  "\<not> should_sync_file proj_config ''/data/proj/debug.log''
   \<and> sync_file proj_config ''deleted'' ''/data/proj/debug.log'' None synced_state
       = Returned (logged (SkippingExcluded ''/data/proj/debug.log'') synced_state)
   \<and> lookup ''/'' (fs (final_state
         (sync_file proj_config ''deleted'' ''/data/proj/debug.log'' None synced_state)))
         ''/mnt/remote/proj/debug.log'' = Some (File ''log bytes'' 9)"
proof -
  have h: "\<not> should_sync_file proj_config ''/data/proj/debug.log''" by code_simp
  have l: "lookup ''/'' (fs synced_state) ''/mnt/remote/proj/debug.log''
             = Some (File ''log bytes'' 9)" by code_simp
  note n = sync_file_excluded_is_noop [OF h, of "''deleted''" None synced_state]
  have a: "sync_file proj_config ''deleted'' ''/data/proj/debug.log'' None synced_state
             = Returned (logged (SkippingExcluded ''/data/proj/debug.log'') synced_state)"
    by (rule n [THEN conjunct1])
  have b: "fs (final_state
              (sync_file proj_config ''deleted'' ''/data/proj/debug.log'' None synced_state))
             = fs synced_state"
    by (rule n [THEN conjunct2, THEN conjunct1])
  have c: "lookup ''/'' (fs (final_state
              (sync_file proj_config ''deleted'' ''/data/proj/debug.log'' None synced_state)))
              ''/mnt/remote/proj/debug.log'' = Some (File ''log bytes'' 9)"
    unfolding b by (rule l)
  from h a c show ?thesis by (intro conjI)
qed

text \<open>
  Claim C7, as stated, fails on the metadata: after a Deleted event for a synced path
  the remote file is gone, and the row of the path is still in the database.
\<close>

theorem sync_file_deleted_counterexample:
  "should_sync_file proj_config ''/data/proj/gone.txt''
   \<and> get_remote_path ''/'' proj_config ''/data/proj/gone.txt''
       = Inr (Some ''/mnt/remote/proj/gone.txt'')
   \<and> lookup ''/'' (fs synced_state) ''/mnt/remote/proj/gone.txt'' = Some (File ''gone bytes'' 8)
   \<and> raised (sync_file proj_config ''deleted'' ''/data/proj/gone.txt'' None synced_state) = None
   \<and> lookup ''/'' (fs (final_state
         (sync_file proj_config ''deleted'' ''/data/proj/gone.txt'' None synced_state)))
         ''/mnt/remote/proj/gone.txt'' = None
   \<and> files (store (final_state
         (sync_file proj_config ''deleted'' ''/data/proj/gone.txt'' None synced_state)))
         ''/data/proj/gone.txt'' = Some a_record"
  by code_simp

text \<open>
  Claim C7, amended.  For a Deleted event whose path passes the exclusion check and
  whose remote path is resolvable: a regular file at the remote path is removed and
  nothing else in the tree changes; when nothing is there the state is unchanged; when a
  directory is there the tree is unchanged and the failure is logged.  The engine
  changes neither its dictionary nor the metadata database.
\<close>

theorem sync_file_deleted:
  assumes "should_sync_file cfg file_path"
      and "get_remote_path (cwd s) cfg file_path = Inr (Some rp)"
  shows "\<exists>s'. sync_file cfg ''deleted'' file_path None s = Returned s'
           \<and> metadata_db s' = metadata_db s \<and> store s' = store s \<and> cwd s' = cwd s
           \<and> (case lookup (cwd s) (fs s) rp of
                 None \<Rightarrow> s' = s
               | Some Dir \<Rightarrow> fs s' = fs s
                             \<and> engine_log s' = engine_log s @ [ErrorSyncing file_path IsADirectoryError]
               | Some (File c m) \<Rightarrow>
                   lookup (cwd s') (fs s') rp = None
                   \<and> (\<forall>q. abs_comps (cwd s) q \<noteq> abs_comps (cwd s) rp
                          \<longrightarrow> lookup (cwd s') (fs s') q = lookup (cwd s) (fs s) q)
                   \<and> engine_log s' = engine_log s @ [DeletedRemote rp])"
proof -
  have ne: "rp \<noteq> []" using assms(2) by (rule get_remote_path_nonempty)
  show ?thesis
  proof (cases "lookup (cwd s) (fs s) rp")
    case None
    then show ?thesis using assms ne
      by (simp add: sync_file_def sync_action_def truthy_def path_exists_def)
  next
    case (Some n)
    then show ?thesis using assms ne
      by (cases n)
         (auto simp: sync_file_def sync_action_def truthy_def path_exists_def os_remove_def
                    logged_def lookup_delete_same lookup_delete_other)
  qed
qed

theorem sync_file_deleted_witness:
  "should_sync_file proj_config ''/data/proj/gone.txt''
   \<and> get_remote_path (cwd synced_state) proj_config ''/data/proj/gone.txt''
       = Inr (Some ''/mnt/remote/proj/gone.txt'')
   \<and> (\<exists>s'. sync_file proj_config ''deleted'' ''/data/proj/gone.txt'' None synced_state
              = Returned s'
            \<and> store s' = store synced_state
            \<and> lookup (cwd s') (fs s') ''/mnt/remote/proj/gone.txt'' = None
            \<and> engine_log s' = [DeletedRemote ''/mnt/remote/proj/gone.txt''])"
proof -
  have h1: "should_sync_file proj_config ''/data/proj/gone.txt''" by code_simp
  have h2: "get_remote_path (cwd synced_state) proj_config ''/data/proj/gone.txt''
              = Inr (Some ''/mnt/remote/proj/gone.txt'')" by code_simp
  have l: "lookup (cwd synced_state) (fs synced_state) ''/mnt/remote/proj/gone.txt''
             = Some (File ''gone bytes'' 8)" by code_simp
  have g: "engine_log synced_state = []" by code_simp
  from sync_file_deleted [OF h1 h2] l g
  have "\<exists>s'. sync_file proj_config ''deleted'' ''/data/proj/gone.txt'' None synced_state
              = Returned s'
            \<and> store s' = store synced_state
            \<and> lookup (cwd s') (fs s') ''/mnt/remote/proj/gone.txt'' = None
            \<and> engine_log s' = [DeletedRemote ''/mnt/remote/proj/gone.txt'']"
    by auto
  with h1 h2 show ?thesis by simp
qed




text \<open>
  Claim C1.  A Moved event from \<open>old.txt\<close> to \<open>new.txt\<close>, with \<open>old.txt\<close> synced
  earlier and the file now at \<open>new.txt\<close> locally.  The claim promises that the remote
  file moves from the remote counterpart of \<open>old.txt\<close> to that of \<open>new.txt\<close>.
  \<open>sync_file\<close> takes \<open>dest_path\<close> for \<open>remote_path\<close> whenever it is given, so what it
  hands to \<open>shutil.move\<close> as the source is the local \<open>new.txt\<close>: the remote \<open>old.txt\<close>
  stays, the local \<open>new.txt\<close> is gone, and the log reads that the remote file
  \<open>/data/proj/new.txt\<close> was moved.  The database row of \<open>old.txt\<close> stays as well and
  none is written for \<open>new.txt\<close>.
\<close>

theorem sync_file_moved_failing_input:
  "should_sync_file proj_config ''/data/proj/old.txt''
   \<and> get_remote_path ''/'' proj_config ''/data/proj/old.txt''
       = Inr (Some ''/mnt/remote/proj/old.txt'')
   \<and> get_remote_path ''/'' proj_config ''/data/proj/new.txt''
       = Inr (Some ''/mnt/remote/proj/new.txt'')
   \<and> lookup ''/'' (fs synced_state) ''/mnt/remote/proj/old.txt'' = Some (File ''old bytes'' 7)
   \<and> lookup ''/'' (fs synced_state) ''/data/proj/new.txt'' = Some (File ''old bytes'' 7)
   \<and> raised (sync_file proj_config ''moved'' ''/data/proj/old.txt''
               (Some ''/data/proj/new.txt'') synced_state) = None
   \<and> engine_log (final_state
         (sync_file proj_config ''moved'' ''/data/proj/old.txt''
            (Some ''/data/proj/new.txt'') synced_state))
       = [MovedRemote ''/data/proj/new.txt'' ''/mnt/remote/proj/new.txt'']
   \<and> lookup ''/'' (fs (final_state
         (sync_file proj_config ''moved'' ''/data/proj/old.txt''
            (Some ''/data/proj/new.txt'') synced_state)))
         ''/mnt/remote/proj/old.txt'' = Some (File ''old bytes'' 7)
   \<and> lookup ''/'' (fs (final_state
         (sync_file proj_config ''moved'' ''/data/proj/old.txt''
            (Some ''/data/proj/new.txt'') synced_state)))
         ''/mnt/remote/proj/new.txt'' = Some (File ''old bytes'' 7)
   \<and> lookup ''/'' (fs (final_state
         (sync_file proj_config ''moved'' ''/data/proj/old.txt''
            (Some ''/data/proj/new.txt'') synced_state)))
         ''/data/proj/new.txt'' = None
   \<and> files (store (final_state
         (sync_file proj_config ''moved'' ''/data/proj/old.txt''
            (Some ''/data/proj/new.txt'') synced_state)))
         ''/data/proj/old.txt'' = Some a_record
   \<and> files (store (final_state
         (sync_file proj_config ''moved'' ''/data/proj/old.txt''
            (Some ''/data/proj/new.txt'') synced_state)))
         ''/data/proj/new.txt'' = None"
  by code_simp

text \<open>
  Claim C8.  A directory that cannot be created during the walk: \<open>sync_directory\<close>
  calls \<open>os.makedirs\<close> outside any handler, so the exception leaves \<open>full_sync\<close>.  The
  file \<open>f.txt\<close> of the same directory and the whole second mapping are never processed;
  the tree is as it was.
\<close>

theorem full_sync_aborts_on_mkdir_failure:
  "map_option raised (full_sync 3 two_config blocked_state) = Some (Some FileExistsError)
   \<and> map_option (fs \<circ> final_state) (full_sync 3 two_config blocked_state)
       = Some (fs blocked_state)
   \<and> map_option (engine_log \<circ> final_state) (full_sync 3 two_config blocked_state)
       = Some [StartingFullSync, StartingDirectorySync ''/data/a'' ''/mnt/remote/a'']
   \<and> lookup ''/'' (fs blocked_state) ''/mnt/remote/b/g.txt'' = None"
  by code_simp

end
